theory Spec2Isabelle
  imports Complex_Main "HOL-Library.Word"
begin

text \<open>
  A model of the class \<^verbatim>\<open>BWCurve\<close> of src/index.ts: the curve points and the metadata,
  the transforms \<^verbatim>\<open>clamp\<close>, \<^verbatim>\<open>scaleX\<close>, \<^verbatim>\<open>spliceCurve\<close>, \<^verbatim>\<open>pushPoints\<close>, \<^verbatim>\<open>double\<close>,
  \<^verbatim>\<open>clip\<close> and \<^verbatim>\<open>removePoint\<close>, and the codec \<^verbatim>\<open>toBuffer\<close> and \<^verbatim>\<open>fromBuffer\<close> with the
  helpers \<^verbatim>\<open>fromHexString\<close> and \<^verbatim>\<open>stringToHex\<close>. Line numbers refer to that file.
\<close>

section \<open>JavaScript values used by the library\<close>

subsection \<open>Numbers\<close>

text \<open>
  A JavaScript \<^verbatim>\<open>number\<close> is an IEEE-754 binary64 value. The model keeps the special
  values apart (\<open>NaN\<close>, the two infinities, the negative zero) and stands for every
  other value by the real number it denotes; \<open>Finite 0\<close> is the positive zero.
  Arithmetic on finite values is exact: rounding, overflow and underflow of binary64
  are not modelled. Every concrete computation in this theory stays within dyadic
  rationals that binary64 holds exactly.
\<close>

datatype number = NaN | NegInfinity | NegZero | Finite real | PosInfinity

definition isZero :: "number \<Rightarrow> bool" where
  "isZero n = (n = NegZero \<or> n = Finite 0)"

definition isNegative :: "number \<Rightarrow> bool" where
  \<comment> \<open>the sign bit of a number that is not NaN\<close>
  "isNegative n = (case n of NegInfinity \<Rightarrow> True | NegZero \<Rightarrow> True | Finite r \<Rightarrow> r < 0 | _ \<Rightarrow> False)"

definition realOf :: "number \<Rightarrow> real" where
  \<comment> \<open>the mathematical value of a finite number\<close>
  "realOf n = (case n of Finite r \<Rightarrow> r | _ \<Rightarrow> 0)"

definition signedZero :: "bool \<Rightarrow> number" where
  "signedZero neg = (if neg then NegZero else Finite 0)"

definition signedInfinity :: "bool \<Rightarrow> number" where
  "signedInfinity neg = (if neg then NegInfinity else PosInfinity)"

definition isInfinite :: "number \<Rightarrow> bool" where
  "isInfinite n = (n = NegInfinity \<or> n = PosInfinity)"

text \<open>The relational operator \<^verbatim>\<open>a < b\<close>: false as soon as one side is NaN; the two zeros are equal.\<close>

definition num_less :: "number \<Rightarrow> number \<Rightarrow> bool" where
  "num_less a b =
     (if a = NaN \<or> b = NaN then False
      else if a = PosInfinity \<or> b = NegInfinity then False
      else if a = NegInfinity \<or> b = PosInfinity then True
      else realOf a < realOf b)"

definition num_greater :: "number \<Rightarrow> number \<Rightarrow> bool" where
  \<comment> \<open>\<^verbatim>\<open>a > b\<close>\<close>
  "num_greater a b = num_less b a"

definition num_le :: "number \<Rightarrow> number \<Rightarrow> bool" where
  \<comment> \<open>\<^verbatim>\<open>a <= b\<close>: false as soon as one side is NaN\<close>
  "num_le a b = (a \<noteq> NaN \<and> b \<noteq> NaN \<and> \<not> num_less b a)"

text \<open>\<^verbatim>\<open>a * b\<close>, \<^verbatim>\<open>a + b\<close>, \<^verbatim>\<open>-a\<close>, \<^verbatim>\<open>a - b\<close>, \<^verbatim>\<open>a / b\<close> with the IEEE-754 rules for the special values.\<close>

definition num_mul :: "number \<Rightarrow> number \<Rightarrow> number" where
  "num_mul a b =
     (if a = NaN \<or> b = NaN then NaN
      else if isInfinite a \<or> isInfinite b then
        (if isZero a \<or> isZero b then NaN else signedInfinity (isNegative a \<noteq> isNegative b))
      else if isZero a \<or> isZero b then signedZero (isNegative a \<noteq> isNegative b)
      else Finite (realOf a * realOf b))"

definition num_add :: "number \<Rightarrow> number \<Rightarrow> number" where
  "num_add a b =
     (if a = NaN \<or> b = NaN then NaN
      else if isInfinite a then (if isInfinite b \<and> a \<noteq> b then NaN else a)
      else if isInfinite b then b
      else if a = NegZero \<and> b = NegZero then NegZero
      else Finite (realOf a + realOf b))"

definition num_neg :: "number \<Rightarrow> number" where
  "num_neg a =
     (case a of NaN \<Rightarrow> NaN | NegInfinity \<Rightarrow> PosInfinity | PosInfinity \<Rightarrow> NegInfinity
      | NegZero \<Rightarrow> Finite 0 | Finite r \<Rightarrow> (if r = 0 then NegZero else Finite (- r)))"

definition num_sub :: "number \<Rightarrow> number \<Rightarrow> number" where
  "num_sub a b = num_add a (num_neg b)"

definition num_div :: "number \<Rightarrow> number \<Rightarrow> number" where
  "num_div a b =
     (if a = NaN \<or> b = NaN then NaN
      else if isInfinite a then
        (if isInfinite b then NaN else signedInfinity (isNegative a \<noteq> isNegative b))
      else if isInfinite b then signedZero (isNegative a \<noteq> isNegative b)
      else if isZero b then
        (if isZero a then NaN else signedInfinity (isNegative a \<noteq> isNegative b))
      else if isZero a then signedZero (isNegative a \<noteq> isNegative b)
      else Finite (realOf a / realOf b))"

definition num_cube :: "number \<Rightarrow> number" where
  \<comment> \<open>\<^verbatim>\<open>a ** 3\<close>\<close>
  "num_cube a =
     (case a of NaN \<Rightarrow> NaN | NegInfinity \<Rightarrow> NegInfinity | PosInfinity \<Rightarrow> PosInfinity
      | NegZero \<Rightarrow> NegZero | Finite r \<Rightarrow> Finite (r ^ 3))"

text \<open>
  \<^verbatim>\<open>Math.max(...values)\<close> and \<^verbatim>\<open>Math.min(...values)\<close>: a scan that starts at minus
  (plus) infinity, returns NaN at the first NaN, and ranks the positive zero above the
  negative one.
\<close>

fun Math_max_from :: "number \<Rightarrow> number list \<Rightarrow> number" where
  "Math_max_from highest [] = highest"
| "Math_max_from highest (n # ns) =
     (if n = NaN then NaN
      else Math_max_from
             (if n = Finite 0 \<and> highest = NegZero then Finite 0
              else if num_greater n highest then n else highest) ns)"

definition Math_max :: "number list \<Rightarrow> number" where
  "Math_max values = Math_max_from NegInfinity values"

fun Math_min_from :: "number \<Rightarrow> number list \<Rightarrow> number" where
  "Math_min_from lowest [] = lowest"
| "Math_min_from lowest (n # ns) =
     (if n = NaN then NaN
      else Math_min_from
             (if n = NegZero \<and> lowest = Finite 0 then NegZero
              else if num_less n lowest then n else lowest) ns)"

definition Math_min :: "number list \<Rightarrow> number" where
  "Math_min values = Math_min_from PosInfinity values"

definition Math_abs :: "number \<Rightarrow> number" where
  "Math_abs a =
     (case a of NaN \<Rightarrow> NaN | NegInfinity \<Rightarrow> PosInfinity | PosInfinity \<Rightarrow> PosInfinity
      | NegZero \<Rightarrow> Finite 0 | Finite r \<Rightarrow> Finite \<bar>r\<bar>)"

definition Math_sign :: "number \<Rightarrow> number" where
  "Math_sign a =
     (case a of NaN \<Rightarrow> NaN | NegInfinity \<Rightarrow> Finite (- 1) | PosInfinity \<Rightarrow> Finite 1
      | NegZero \<Rightarrow> NegZero | Finite r \<Rightarrow> Finite (sgn r))"

definition Math_tanh :: "number \<Rightarrow> number" where
  "Math_tanh a =
     (case a of NaN \<Rightarrow> NaN | NegInfinity \<Rightarrow> Finite (- 1) | PosInfinity \<Rightarrow> Finite 1
      | NegZero \<Rightarrow> NegZero | Finite r \<Rightarrow> Finite (tanh r))"

definition Math_sin :: "number \<Rightarrow> number" where
  "Math_sin a =
     (case a of NaN \<Rightarrow> NaN | NegInfinity \<Rightarrow> NaN | PosInfinity \<Rightarrow> NaN
      | NegZero \<Rightarrow> NegZero | Finite r \<Rightarrow> Finite (sin r))"

definition Math_PI :: number where
  "Math_PI = Finite pi"

subsection \<open>Exceptions\<close>

datatype error = TypeError | RangeError | Error string

definition then_e :: "error + 'a \<Rightarrow> ('a \<Rightarrow> error + 'b) \<Rightarrow> error + 'b" where
  \<comment> \<open>sequencing: a thrown exception skips the rest\<close>
  "then_e r f = (case r of Inl e \<Rightarrow> Inl e | Inr v \<Rightarrow> f v)"

section \<open>The data model (src/index.ts, lines 22 to 65)\<close>

record BWCurvePoint =
  x :: number
  y :: number
  slope :: number

datatype BWCurveCategories = Envelope | Lookup | Periodic | Sequence

record BWCurveMetadata =
  creator :: string
  description :: string
  name :: string
  tags :: "string list"
  category :: BWCurveCategories

record InternalData =
  length_data :: number

record BWCurve =
  internal :: InternalData
  metadata :: BWCurveMetadata
  points :: "BWCurvePoint list"

definition new_BWCurve :: BWCurve where
  \<comment> \<open>the constructor\<close>
  "new_BWCurve =
     \<lparr> internal = \<lparr> length_data = Finite 1 \<rparr>,
       metadata = \<lparr> creator = ''default'', description = ''default'', name = ''default'',
                    tags = [''default''], category = Envelope \<rparr>,
       points = [] \<rparr>"

definition setTags :: "BWCurve \<Rightarrow> string list \<Rightarrow> BWCurve" where
  \<comment> \<open>lines 481 to 484\<close>
  "setTags this ts = this\<lparr>metadata := (metadata this)\<lparr>tags := ts\<rparr>\<rparr>"

definition setPoints ::
  "BWCurve \<Rightarrow> 'a list \<Rightarrow> ('a \<Rightarrow> nat \<Rightarrow> 'a list \<Rightarrow> number \<times> number \<times> number option)
   \<Rightarrow> BWCurve" where
  \<comment> \<open>lines 73 to 90: the converter returns x, y and, optionally, slope\<close>
  "setPoints this source converter =
     this\<lparr>points :=
       map (\<lambda>i. case converter (source ! i) i source of
                   (a, b, c) \<Rightarrow> \<lparr> x = a, y = b, slope = (case c of None \<Rightarrow> Finite 0 | Some v \<Rightarrow> v) \<rparr>)
           [0 ..< length source]\<rparr>"

definition point :: "real \<Rightarrow> real \<Rightarrow> real \<Rightarrow> BWCurvePoint" where
  \<comment> \<open>the object literal \<^verbatim>\<open>{ x: a, y: b, slope: c }\<close> of three finite numbers\<close>
  "point a b c = \<lparr> x = Finite a, y = Finite b, slope = Finite c \<rparr>"

section \<open>The transform pipeline\<close>

text \<open>
  A method that mutates the receiver and returns \<^verbatim>\<open>this\<close> is a function from the
  receiver's state (first argument) to its state after the call.
\<close>

definition getMaxX :: "BWCurve \<Rightarrow> number" where
  \<comment> \<open>lines 92 to 94\<close>
  "getMaxX this = Math_max (map x (points this))"

definition map_points ::
  "BWCurve \<Rightarrow> (BWCurvePoint \<Rightarrow> nat \<Rightarrow> BWCurvePoint list \<Rightarrow> BWCurvePoint) \<Rightarrow> BWCurve" where
  \<comment> \<open>lines 113 to 116: the callback receives the point, its index and the array\<close>
  "map_points this callback =
     this\<lparr>points := map (\<lambda>i. callback (points this ! i) i (points this)) [0 ..< length (points this)]\<rparr>"

definition clamp :: "BWCurve \<Rightarrow> BWCurve" where
  \<comment> \<open>lines 123 to 131\<close>
  "clamp this =
     map_points this (\<lambda>p i array.
       p\<lparr> y := Math_max [Finite 0, Math_min [Finite 1, y p]],
          slope := Math_max [Finite (- 1), Math_min [Finite 1, slope p]] \<rparr>)"

definition scaleX :: "BWCurve \<Rightarrow> number \<Rightarrow> BWCurve" where
  \<comment> \<open>lines 164 to 172\<close>
  "scaleX this factor = this\<lparr>points := map (\<lambda>p. p\<lparr>x := num_mul (x p) factor\<rparr>) (points this)\<rparr>"

datatype pushArg = OnePoint BWCurvePoint | PointArray "BWCurvePoint list"

definition pushPoints :: "BWCurve \<Rightarrow> pushArg list \<Rightarrow> BWCurve" where
  \<comment> \<open>lines 242 to 251: each argument is one point or an array of points\<close>
  "pushPoints this args =
     fold (\<lambda>arg t. case arg of PointArray ps \<Rightarrow> t\<lparr>points := points t @ ps\<rparr>
                              | OnePoint p \<Rightarrow> t\<lparr>points := points t @ [p]\<rparr>) args this"

definition spliceCurve :: "BWCurve \<Rightarrow> BWCurve \<Rightarrow> BWCurve" where
  \<comment> \<open>lines 217 to 235. On an empty receiver the source assigns the argument's array
      itself; the model copies its value, so later in-place changes through the shared
      array are not seen.\<close>
  "spliceCurve this curve =
     (if length (points curve) = 0 then this
      else if length (points this) = 0 then this\<lparr>points := points curve\<rparr>
      else let maxX = getMaxX this;
               pointsWithOffset = map (\<lambda>p. p\<lparr>x := num_add (x p) maxX\<rparr>) (points curve)
           in pushPoints this [PointArray pointsWithOffset])"

definition double :: "BWCurve \<Rightarrow> BWCurve" where
  \<comment> \<open>lines 319 to 326; \<^verbatim>\<open>spliceCurve\<close> is called on the rescaled curve, with itself\<close>
  "double this =
     (if length (points this) \<le> 1 then this
      else let maxX = getMaxX this;
               this1 = scaleX this (num_mul (Finite (1/2)) maxX)
           in spliceCurve this1 this1)"

definition clip :: "BWCurve \<Rightarrow> string \<Rightarrow> BWCurve" where
  \<comment> \<open>lines 360 to 386\<close>
  "clip this algorithm =
     (if algorithm = ''tanh'' then
        map_points this (\<lambda>p i array. p\<lparr>y := Math_tanh (num_mul (Finite 5) (y p))\<rparr>)
      else if algorithm = ''sin'' then
        map_points this (\<lambda>p i array.
          p\<lparr>y := (if num_greater (Math_abs (y p)) (num_div (Finite 2) (Finite 3))
                   then Math_sign (y p)
                   else Math_sin (num_div (num_mul (num_mul (Finite 3) Math_PI) (y p)) (Finite 4)))\<rparr>)
      else if algorithm = ''cubic'' then
        map_points this (\<lambda>p i array.
          p\<lparr>y := (if num_greater (Math_abs (y p)) (num_div (Finite 2) (Finite 3))
                   then Math_sign (y p)
                   else num_sub (num_div (num_mul (Finite 9) (y p)) (Finite 4))
                                (num_div (num_mul (Finite 27) (num_cube (y p))) (Finite 16)))\<rparr>)
      else this)"

text \<open>
  \<^verbatim>\<open>Array.prototype.splice(start, deleteCount)\<close> with no inserted items, for an integral
  start: a negative start counts from the end of the array.
\<close>

definition splice :: "'a list \<Rightarrow> int \<Rightarrow> int \<Rightarrow> 'a list" where
  "splice xs start deleteCount =
     (let len = int (length xs);
          actualStart = (if start < 0 then max (len + start) 0 else min start len);
          actualDeleteCount = min (max deleteCount 0) (len - actualStart)
      in take (nat actualStart) xs @ drop (nat (actualStart + actualDeleteCount)) xs)"

definition removePoint :: "BWCurve \<Rightarrow> int \<Rightarrow> BWCurve" where
  \<comment> \<open>lines 409 to 412\<close>
  "removePoint this index = this\<lparr>points := splice (points this) index 1\<rparr>"

section \<open>The tag-stream codec\<close>

subsection \<open>Strings, bytes and typed arrays\<close>

text \<open>
  A JavaScript string is a sequence of UTF-16 code units. The model is \<^typ>\<open>string\<close>:
  each \<^typ>\<open>char\<close> stands for one code unit below 256, so text outside Latin-1 is
  not covered.
\<close>

type_synonym byte = "8 word"

definition hexDigit :: "nat \<Rightarrow> char" where
  "hexDigit d = ''0123456789abcdef'' ! d"

fun toString16 :: "nat \<Rightarrow> string" where
  \<comment> \<open>\<^verbatim>\<open>n.toString(16)\<close> for a non-negative integer\<close>
  "toString16 n = (if n < 16 then [hexDigit n] else toString16 (n div 16) @ [hexDigit (n mod 16)])"

declare toString16.simps [simp del]

definition stringToHex :: "string \<Rightarrow> string" where
  \<comment> \<open>lines 7 to 12: the code of every character in hexadecimal, not padded\<close>
  "stringToHex str = concat (map (\<lambda>c. toString16 (of_char c)) str)"

definition isWhiteSpace :: "char \<Rightarrow> bool" where
  \<comment> \<open>the class \<^verbatim>\<open>\s\<close> among the code units below 256\<close>
  "isWhiteSpace c =
     (let n = of_char c :: nat in n = 9 \<or> n = 10 \<or> n = 11 \<or> n = 12 \<or> n = 13 \<or> n = 32 \<or> n = 160)"

fun chunks2 :: "string \<Rightarrow> string list" where
  \<comment> \<open>the matches of \<^verbatim>\<open>/.{1,2}/g\<close> in a string without line terminators\<close>
  "chunks2 (a # b # rest) = [a, b] # chunks2 rest"
| "chunks2 [a] = [[a]]"
| "chunks2 [] = []"

definition hexDigitValue :: "char \<Rightarrow> nat option" where
  "hexDigitValue c =
     (let n = of_char c :: nat in
      if 48 \<le> n \<and> n \<le> 57 then Some (n - 48)
      else if 97 \<le> n \<and> n \<le> 102 then Some (n - 87)
      else if 65 \<le> n \<and> n \<le> 70 then Some (n - 55)
      else None)"

definition parseInt16 :: "string \<Rightarrow> int option" where
  \<comment> \<open>\<^verbatim>\<open>parseInt(str, 16)\<close>; \<open>None\<close> is NaN\<close>
  "parseInt16 str =
     (let s = dropWhile isWhiteSpace str;
          negative = (case s of [] \<Rightarrow> False | c # r \<Rightarrow> c = CHR ''-'');
          s1 = (case s of [] \<Rightarrow> s | c # r \<Rightarrow> if c = CHR ''+'' \<or> c = CHR ''-'' then r else s);
          s2 = (case s1 of a # b # r \<Rightarrow>
                  if a = CHR ''0'' \<and> (b = CHR ''x'' \<or> b = CHR ''X'') then r else s1
                | _ \<Rightarrow> s1);
          z = takeWhile (\<lambda>c. hexDigitValue c \<noteq> None) s2
      in if z = [] then None
         else Some ((if negative then - 1 else 1)
                    * int (foldl (\<lambda>acc c. 16 * acc + the (hexDigitValue c)) 0 z)))"

definition toUint8 :: "int option \<Rightarrow> byte" where
  \<comment> \<open>the conversion of a number stored into a \<^verbatim>\<open>Uint8Array\<close>: NaN gives 0, an integer wraps\<close>
  "toUint8 v = (case v of None \<Rightarrow> 0 | Some i \<Rightarrow> word_of_int i)"

definition fromHexString :: "string \<Rightarrow> error + byte list" where
  \<comment> \<open>lines 2 to 5; \<^verbatim>\<open>match\<close> returns null when nothing matches, and \<^verbatim>\<open>null.map\<close> throws\<close>
  "fromHexString hexString =
     (let noSpaces = filter (\<lambda>c. \<not> isWhiteSpace c) hexString
      in if noSpaces = [] then Inl TypeError
         else Inr (map (\<lambda>byte. toUint8 (parseInt16 byte)) (chunks2 noSpaces)))"

fun join :: "string \<Rightarrow> string list \<Rightarrow> string" where
  \<comment> \<open>\<^verbatim>\<open>array.join(separator)\<close>\<close>
  "join separator [] = []"
| "join separator [s] = s"
| "join separator (s # rest) = s @ separator @ join separator rest"

fun spread :: "(error + 'a list) list \<Rightarrow> error + 'a list" where
  \<comment> \<open>the array literal \<^verbatim>\<open>[...a, ...b, ...]\<close>: the operands are evaluated in order, and the
      first one that throws ends the evaluation\<close>
  "spread [] = Inr []"
| "spread (Inl e # rest) = Inl e"
| "spread (Inr v # rest) = then_e (spread rest) (\<lambda>vs. Inr (v @ vs))"

fun mapE :: "('a \<Rightarrow> error + 'b) \<Rightarrow> 'a list \<Rightarrow> error + 'b list" where
  \<comment> \<open>\<^verbatim>\<open>array.map(callback)\<close> for a callback that may throw\<close>
  "mapE f [] = Inr []"
| "mapE f (a # as) = then_e (f a) (\<lambda>b. then_e (mapE f as) (\<lambda>bs. Inr (b # bs)))"

definition new_Uint8Array :: "nat \<Rightarrow> byte list" where
  \<comment> \<open>\<^verbatim>\<open>new Uint8Array(n)\<close>: n zero bytes\<close>
  "new_Uint8Array n = replicate n 0"

definition set_Uint8Array :: "byte list \<Rightarrow> byte list \<Rightarrow> nat \<Rightarrow> error + byte list" where
  \<comment> \<open>\<^verbatim>\<open>target.set(source, offset)\<close>\<close>
  "set_Uint8Array target source offset =
     (if length source + offset > length target then Inl RangeError
      else Inr (take offset target @ source @ drop (offset + length source) target))"

subsection \<open>Doubles\<close>

definition roundTiesToEven :: "real \<Rightarrow> int" where
  "roundTiesToEven r =
     (let f = \<lfloor>r\<rfloor>; d = r - of_int f
      in if d < 1/2 then f else if 1/2 < d then f + 1 else if even f then f else f + 1)"

definition binary64 :: "number \<Rightarrow> 64 word" where
  \<comment> \<open>the IEEE-754 binary64 bit pattern: sign, 11 bits of exponent, 52 bits of fraction.
      A real that binary64 holds is stored exactly, any other is rounded to the nearest;
      NaN is stored as the quiet NaN with an empty payload.\<close>
  "binary64 v =
     (case v of
        NaN \<Rightarrow> 0x7FF8000000000000
      | PosInfinity \<Rightarrow> 0x7FF0000000000000
      | NegInfinity \<Rightarrow> 0xFFF0000000000000
      | NegZero \<Rightarrow> 0x8000000000000000
      | Finite r \<Rightarrow>
          (if r = 0 then 0
           else let e = max \<lfloor>log 2 \<bar>r\<bar>\<rfloor> (- 1022);
                    m = roundTiesToEven (\<bar>r\<bar> / 2 powi (e - 52));
                    magnitude = min ((e + 1022) * 2 ^ 52 + m) 0x7FF0000000000000
                in (if r < 0 then 0x8000000000000000 else 0) + word_of_int magnitude))"

definition float64_be :: "number \<Rightarrow> byte list" where
  \<comment> \<open>the eight bytes of the bit pattern, most significant first\<close>
  "float64_be v = map (\<lambda>i. ucast (drop_bit (8 * (7 - i)) (binary64 v))) [0 ..< 8]"

definition setFloat64 :: "byte list \<Rightarrow> nat \<Rightarrow> number \<Rightarrow> error + byte list" where
  \<comment> \<open>\<^verbatim>\<open>dataView.setFloat64(byteOffset, value, false)\<close> on the view of a whole array\<close>
  "setFloat64 buffer byteOffset v =
     (if byteOffset + 8 > length buffer then Inl RangeError
      else Inr (take byteOffset buffer @ float64_be v @ drop (byteOffset + 8) buffer))"

subsection \<open>fromBuffer and toBuffer (lines 536 to 732)\<close>

definition fromBuffer :: "byte list \<Rightarrow> error + BWCurve" where
  \<comment> \<open>lines 536 to 539\<close>
  "fromBuffer buffer = Inl (Error ''Not implemented (yet)'')"

definition categoryName :: "BWCurveCategories \<Rightarrow> string" where
  \<comment> \<open>a category is the string of its name\<close>
  "categoryName c =
     (case c of Envelope \<Rightarrow> ''Envelope'' | Lookup \<Rightarrow> ''Lookup''
      | Periodic \<Rightarrow> ''Periodic'' | Sequence \<Rightarrow> ''Sequence'')"

definition spacer :: "error + byte list" where
  \<comment> \<open>line 553\<close>
  "spacer = fromHexString ''00 00 00''"

definition stop :: "error + byte list" where
  \<comment> \<open>line 554\<close>
  "stop = fromHexString ''00''"

definition pointStructure :: "BWCurvePoint \<Rightarrow> error + byte list" where
  \<comment> \<open>lines 556 to 576: the callback that lays out one point\<close>
  "pointStructure p =
     then_e (spread
       [fromHexString ''00 12 7E 00 00 35 FD 07'',
        Inr (new_Uint8Array 8),
        fromHexString ''00 00 35 FE 07'',
        Inr (new_Uint8Array 8),
        fromHexString ''00 00 35 FF 07'',
        Inr (new_Uint8Array 8),
        fromHexString ''00 00 00 00 00'']) (\<lambda>structure.
     then_e (setFloat64 structure 8 (y p)) (\<lambda>structure.
     then_e (setFloat64 structure 21 (x p)) (\<lambda>structure.
     setFloat64 structure 34 (slope p))))"

fun setEach :: "byte list \<Rightarrow> nat \<Rightarrow> byte list list \<Rightarrow> error + byte list" where
  \<comment> \<open>lines 582 to 586: every structure is copied at the running offset\<close>
  "setEach mergedPoints offset [] = Inr mergedPoints"
| "setEach mergedPoints offset (p # ps) =
     then_e (set_Uint8Array mergedPoints p offset) (\<lambda>merged. setEach merged (offset + length p) ps)"

definition mergePoints :: "byte list list \<Rightarrow> error + byte list" where
  \<comment> \<open>lines 578 to 586\<close>
  "mergePoints pts =
     (let pointsLength = fold (\<lambda>p n. n + length p) pts 0;
          mergedPoints = new_Uint8Array pointsLength
      in setEach mergedPoints 0 pts)"

text \<open>
  The array literal of lines 588 to 731, in three parts: the header with the metadata
  block, the points list, and the trailer that repeats the metadata.
\<close>

definition metadataBlock :: "BWCurve \<Rightarrow> (error + byte list) list" where
  \<comment> \<open>lines 589 to 687\<close>
  "metadataBlock this =
     [fromHexString ''42 74 57 67 30 30 30 33 30 30 30 32 30 30 30 30 30 30 30 30 31 35 30 65 30 30 30 30 30 30 30 30 30 30 30 30 30 30 30 30 30 30'',
      spacer,
      fromHexString ''04'',
      spacer,
      fromHexString ''04 6D 65 74 61'',
      spacer,
      fromHexString ''01'',
      spacer,
      fromHexString ''18 61 70 70 6C 69 63 61 74 69 6F 6E 5F 76 65 72 73 69 6F 6E 5F 6E 61 6D 65 08'',
      spacer,
      fromHexString ''05 35 2E 32 2E 32'',
      spacer,
      fromHexString ''01'',
      spacer,
      fromHexString ''06 62 72 61 6E 63 68 08'',
      spacer,
      fromHexString ''08 72 65 6C 65 61 73 65 73'',
      spacer,
      fromHexString ''01'',
      spacer,
      fromHexString ''07 63 6F 6D 6D 65 6E 74'',
      fromHexString ''08'',
      spacer,
      fromHexString (toString16 (length (description (metadata this)))),
      fromHexString (stringToHex (description (metadata this))),
      spacer,
      fromHexString ''01'',
      spacer,
      fromHexString ''07 63 72 65 61 74 6F 72 08'',
      spacer,
      fromHexString (toString16 (length (creator (metadata this)))),
      fromHexString (stringToHex (creator (metadata this))),
      spacer,
      fromHexString ''01'',
      spacer,
      fromHexString ''0E'',
      fromHexString ''63 75 72 76 65 5F 63 61 74 65 67 6F 72 79 08'',
      spacer,
      fromHexString (toString16 (length (categoryName (category (metadata this))))),
      fromHexString (stringToHex (categoryName (category (metadata this)))),
      spacer,
      fromHexString ''01'',
      spacer,
      fromHexString ''0A'',
      fromHexString ''63 75 72 76 65 5F 6B 69 6E 64 01 02'',
      spacer,
      fromHexString ''01'',
      spacer,
      fromHexString ''0B 72 65 76 69 73 69 6F 6E 5F 69 64 08'',
      spacer,
      fromHexString ''28 31 64 39 35 34 37 37 33 36 65 34 32 35 37 64 36 61 61 37 64 33 34 66 39 66 64 64 39 62 38 63 34 66 39 39 38 34 61 36 30'',
      spacer,
      fromHexString ''01'',
      spacer,
      fromHexString ''0B 72 65 76 69 73 69 6F 6E 5F 6E 6F 03 00 02 45 A0'',
      spacer,
      fromHexString ''01'',
      spacer,
      fromHexString ''04 74 61 67 73 08'',
      spacer,
      fromHexString (if length (tags (metadata this)) = 0 then ''00''
                     else toString16 (length (join ''0'' (tags (metadata this))))),
      fromHexString (join ''20'' (map (\<lambda>t. stringToHex t) (tags (metadata this)))),
      spacer,
      fromHexString ''01'',
      spacer,
      fromHexString ''04 74 79 70 65 08'',
      spacer,
      fromHexString ''18 61 70 70 6C 69 63 61 74 69 6F 6E 2F 62 69 74 77 69 67 2D 63 75 72 76 65'',
      spacer,
      fromHexString ''00'',
      fromHexString ''20 20 20 20 20 20 20 20 20 20 20 20 20 20 20 20 0A'',
      fromHexString ''00'']"

definition pointsList :: "byte list \<Rightarrow> (error + byte list) list" where
  \<comment> \<open>lines 688 to 694\<close>
  "pointsList mergedPoints =
     [fromHexString ''00 12 7F 00 00 36 2D 01 02 00 00 36 46 05 01 00 00 36 01 01 20 00 00 36 02 01 01 00 00 36 35 01 00 00 00 36 03 12 00'',
      Inr mergedPoints,
      fromHexString ''00 00 03 00 00 37 88 01 FF 00 00 36 65 01 FF 00 00 36 66 01 FF 00'']"

definition trailerBlock :: "BWCurve \<Rightarrow> (error + byte list) list" where
  \<comment> \<open>lines 695 to 730\<close>
  "trailerBlock this =
     [fromHexString ''00 36 0B 08'',
      spacer,
      fromHexString (toString16 (length (name (metadata this)))),
      fromHexString (stringToHex (name (metadata this))),
      stop,
      fromHexString ''00 36 21 08'',
      spacer,
      fromHexString (toString16 (length (creator (metadata this)))),
      fromHexString (stringToHex (creator (metadata this))),
      stop,
      fromHexString ''00 36 23 08'',
      spacer,
      fromHexString (toString16 (length (description (metadata this)))),
      fromHexString (stringToHex (description (metadata this))),
      stop,
      fromHexString ''00 36 22 08'',
      spacer,
      fromHexString (toString16 (length (categoryName (category (metadata this))))),
      fromHexString (stringToHex (categoryName (category (metadata this)))),
      stop,
      fromHexString ''00 36 A6 08'',
      spacer,
      fromHexString (if length (tags (metadata this)) = 0 then ''00''
                     else toString16 (length (join ''0'' (tags (metadata this))))),
      fromHexString (join ''20'' (map (\<lambda>t. stringToHex t) (tags (metadata this)))),
      stop,
      spacer]"

text \<open>
  \<^verbatim>\<open>toBuffer\<close> returns the bytes, or throws, and leaves the receiver in the state
  given as second component.
\<close>

definition toBuffer :: "BWCurve \<Rightarrow> (error + byte list) \<times> BWCurve" where
  "toBuffer this =
     (then_e (mapE pointStructure (points this)) (\<lambda>pts.
      then_e (mergePoints pts) (\<lambda>mergedPoints.
      spread (metadataBlock this @ pointsList mergedPoints @ trailerBlock this))),
      this)"

subsection \<open>Layouts and reference outputs\<close>

text \<open>
  The record of one point as a plain concatenation: an eight-byte tag, the double of y,
  a five-byte tag, the double of x, a five-byte tag, the double of slope and a five-byte
  trailer. \<open>pointStructure\<close> is proved below to produce exactly this.
\<close>

definition pointRecord :: "BWCurvePoint \<Rightarrow> byte list" where
  "pointRecord p =
     [0x00, 0x12, 0x7E, 0x00, 0x00, 0x35, 0xFD, 0x07] @ float64_be (y p) @
     [0x00, 0x00, 0x35, 0xFE, 0x07] @ float64_be (x p) @
     [0x00, 0x00, 0x35, 0xFF, 0x07] @ float64_be (slope p) @
     [0x00, 0x00, 0x00, 0x00, 0x00]"

text \<open>
  The record layout in the words of the specification: a seven-byte tag, the double of
  y, a five-byte tag, the double of x, a five-byte tag, the double of slope, a
  five-byte trailer.
\<close>

definition hasSpecLayout :: "byte list \<Rightarrow> BWCurvePoint \<Rightarrow> bool" where
  "hasSpecLayout r p =
     (length r = 7 + 8 + 5 + 8 + 5 + 8 + 5 \<and>
      take 8 (drop 7 r) = float64_be (y p) \<and>
      take 8 (drop (7 + 8 + 5) r) = float64_be (x p) \<and>
      take 8 (drop (7 + 8 + 5 + 8 + 5) r) = float64_be (slope p))"

definition pointsDeclaration :: "byte list" where
  \<comment> \<open>the bytes of the string at lines 689 to 691\<close>
  "pointsDeclaration =
     [0x00, 0x12, 0x7F, 0x00, 0x00, 0x36, 0x2D, 0x01, 0x02, 0x00, 0x00, 0x36, 0x46, 0x05, 0x01,
      0x00, 0x00, 0x36, 0x01, 0x01, 0x20, 0x00, 0x00, 0x36, 0x02, 0x01, 0x01, 0x00, 0x00, 0x36,
      0x35, 0x01, 0x00, 0x00, 0x00, 0x36, 0x03, 0x12, 0x00]"

definition pointsEnd :: "byte list" where
  \<comment> \<open>the bytes of the string at line 694\<close>
  "pointsEnd =
     [0x00, 0x00, 0x03, 0x00, 0x00, 0x37, 0x88, 0x01, 0xFF, 0x00, 0x00, 0x36, 0x65, 0x01, 0xFF,
      0x00, 0x00, 0x36, 0x66, 0x01, 0xFF, 0x00]"

definition defaultMetadataBytes :: "byte list" where
  \<comment> \<open>the header and metadata block of a curve that carries the constructor's metadata;
      it starts with the bytes that the comment of lines 545 to 550 lists\<close>
  "defaultMetadataBytes =
     [0x42, 0x74, 0x57, 0x67, 0x30, 0x30, 0x30, 0x33, 0x30, 0x30, 0x30, 0x32, 0x30, 0x30, 0x30, 0x30,
      0x30, 0x30, 0x30, 0x30, 0x31, 0x35, 0x30, 0x65, 0x30, 0x30, 0x30, 0x30, 0x30, 0x30, 0x30, 0x30,
      0x30, 0x30, 0x30, 0x30, 0x30, 0x30, 0x30, 0x30, 0x30, 0x30, 0x00, 0x00, 0x00, 0x04, 0x00, 0x00,
      0x00, 0x04, 0x6D, 0x65, 0x74, 0x61, 0x00, 0x00, 0x00, 0x01, 0x00, 0x00, 0x00, 0x18, 0x61, 0x70,
      0x70, 0x6C, 0x69, 0x63, 0x61, 0x74, 0x69, 0x6F, 0x6E, 0x5F, 0x76, 0x65, 0x72, 0x73, 0x69, 0x6F,
      0x6E, 0x5F, 0x6E, 0x61, 0x6D, 0x65, 0x08, 0x00, 0x00, 0x00, 0x05, 0x35, 0x2E, 0x32, 0x2E, 0x32,
      0x00, 0x00, 0x00, 0x01, 0x00, 0x00, 0x00, 0x06, 0x62, 0x72, 0x61, 0x6E, 0x63, 0x68, 0x08, 0x00,
      0x00, 0x00, 0x08, 0x72, 0x65, 0x6C, 0x65, 0x61, 0x73, 0x65, 0x73, 0x00, 0x00, 0x00, 0x01, 0x00,
      0x00, 0x00, 0x07, 0x63, 0x6F, 0x6D, 0x6D, 0x65, 0x6E, 0x74, 0x08, 0x00, 0x00, 0x00, 0x07, 0x64,
      0x65, 0x66, 0x61, 0x75, 0x6C, 0x74, 0x00, 0x00, 0x00, 0x01, 0x00, 0x00, 0x00, 0x07, 0x63, 0x72,
      0x65, 0x61, 0x74, 0x6F, 0x72, 0x08, 0x00, 0x00, 0x00, 0x07, 0x64, 0x65, 0x66, 0x61, 0x75, 0x6C,
      0x74, 0x00, 0x00, 0x00, 0x01, 0x00, 0x00, 0x00, 0x0E, 0x63, 0x75, 0x72, 0x76, 0x65, 0x5F, 0x63,
      0x61, 0x74, 0x65, 0x67, 0x6F, 0x72, 0x79, 0x08, 0x00, 0x00, 0x00, 0x08, 0x45, 0x6E, 0x76, 0x65,
      0x6C, 0x6F, 0x70, 0x65, 0x00, 0x00, 0x00, 0x01, 0x00, 0x00, 0x00, 0x0A, 0x63, 0x75, 0x72, 0x76,
      0x65, 0x5F, 0x6B, 0x69, 0x6E, 0x64, 0x01, 0x02, 0x00, 0x00, 0x00, 0x01, 0x00, 0x00, 0x00, 0x0B,
      0x72, 0x65, 0x76, 0x69, 0x73, 0x69, 0x6F, 0x6E, 0x5F, 0x69, 0x64, 0x08, 0x00, 0x00, 0x00, 0x28,
      0x31, 0x64, 0x39, 0x35, 0x34, 0x37, 0x37, 0x33, 0x36, 0x65, 0x34, 0x32, 0x35, 0x37, 0x64, 0x36,
      0x61, 0x61, 0x37, 0x64, 0x33, 0x34, 0x66, 0x39, 0x66, 0x64, 0x64, 0x39, 0x62, 0x38, 0x63, 0x34,
      0x66, 0x39, 0x39, 0x38, 0x34, 0x61, 0x36, 0x30, 0x00, 0x00, 0x00, 0x01, 0x00, 0x00, 0x00, 0x0B,
      0x72, 0x65, 0x76, 0x69, 0x73, 0x69, 0x6F, 0x6E, 0x5F, 0x6E, 0x6F, 0x03, 0x00, 0x02, 0x45, 0xA0,
      0x00, 0x00, 0x00, 0x01, 0x00, 0x00, 0x00, 0x04, 0x74, 0x61, 0x67, 0x73, 0x08, 0x00, 0x00, 0x00,
      0x07, 0x64, 0x65, 0x66, 0x61, 0x75, 0x6C, 0x74, 0x00, 0x00, 0x00, 0x01, 0x00, 0x00, 0x00, 0x04,
      0x74, 0x79, 0x70, 0x65, 0x08, 0x00, 0x00, 0x00, 0x18, 0x61, 0x70, 0x70, 0x6C, 0x69, 0x63, 0x61,
      0x74, 0x69, 0x6F, 0x6E, 0x2F, 0x62, 0x69, 0x74, 0x77, 0x69, 0x67, 0x2D, 0x63, 0x75, 0x72, 0x76,
      0x65, 0x00, 0x00, 0x00, 0x00, 0x20, 0x20, 0x20, 0x20, 0x20, 0x20, 0x20, 0x20, 0x20, 0x20, 0x20,
      0x20, 0x20, 0x20, 0x20, 0x20, 0x0A, 0x00]"

definition defaultTrailerBytes :: "byte list" where
  \<comment> \<open>the trailer of a curve that carries the constructor's metadata\<close>
  "defaultTrailerBytes =
     [0x00, 0x36, 0x0B, 0x08, 0x00, 0x00, 0x00, 0x07, 0x64, 0x65, 0x66, 0x61, 0x75, 0x6C, 0x74, 0x00,
      0x00, 0x36, 0x21, 0x08, 0x00, 0x00, 0x00, 0x07, 0x64, 0x65, 0x66, 0x61, 0x75, 0x6C, 0x74, 0x00,
      0x00, 0x36, 0x23, 0x08, 0x00, 0x00, 0x00, 0x07, 0x64, 0x65, 0x66, 0x61, 0x75, 0x6C, 0x74, 0x00,
      0x00, 0x36, 0x22, 0x08, 0x00, 0x00, 0x00, 0x08, 0x45, 0x6E, 0x76, 0x65, 0x6C, 0x6F, 0x70, 0x65,
      0x00, 0x00, 0x36, 0xA6, 0x08, 0x00, 0x00, 0x00, 0x07, 0x64, 0x65, 0x66, 0x61, 0x75, 0x6C, 0x74,
      0x00, 0x00, 0x00, 0x00]"

section \<open>Auxiliary facts\<close>

lemma then_e_simps [simp]: "then_e (Inl e) f = Inl e" "then_e (Inr v) f = f v"
  by (simp_all add: then_e_def)

lemmas number_ops =
  num_less_def num_greater_def num_le_def num_mul_def num_add_def num_neg_def num_sub_def
  num_div_def num_cube_def isZero_def isNegative_def isInfinite_def realOf_def signedZero_def
  signedInfinity_def Math_max_def Math_min_def Math_abs_def Math_sign_def Math_tanh_def
  Math_sin_def Math_PI_def

subsection \<open>Callbacks that ignore the index and the array\<close>

text \<open>The curves of the examples below are what \<open>setPoints\<close> builds with the identity converter.\<close>

lemma setPoints_identity:
  "setPoints this ps (\<lambda>p i array. (x p, y p, Some (slope p))) = this\<lparr>points := ps\<rparr>"
proof -
  have "map (\<lambda>i. \<lparr>x = x (ps ! i), y = y (ps ! i), slope = slope (ps ! i)\<rparr>) [0 ..< length ps] = ps"
    by (rule nth_equalityI) simp_all
  then show ?thesis by (simp add: setPoints_def)
qed

lemma map_index_nth: "map (\<lambda>i. f (xs ! i)) [0 ..< length xs] = map f xs"
  by (rule nth_equalityI) simp_all

lemma map_points_plain:
  "map_points this (\<lambda>p i array. f p) = this\<lparr>points := map f (points this)\<rparr>"
  unfolding map_points_def by (simp only: map_index_nth)

subsection \<open>Clamping one coordinate\<close>

lemma clamp_unit:
  "Math_max [Finite 0, Math_min [Finite 1, v]] =
     (case v of NaN \<Rightarrow> NaN | NegInfinity \<Rightarrow> Finite 0 | NegZero \<Rightarrow> Finite 0
      | Finite r \<Rightarrow> Finite (max 0 (min 1 r)) | PosInfinity \<Rightarrow> Finite 1)"
  by (cases v) (auto simp: number_ops)

lemma clamp_slope:
  "Math_max [Finite (- 1), Math_min [Finite 1, v]] =
     (case v of NaN \<Rightarrow> NaN | NegInfinity \<Rightarrow> Finite (- 1) | NegZero \<Rightarrow> NegZero
      | Finite r \<Rightarrow> Finite (max (- 1) (min 1 r)) | PosInfinity \<Rightarrow> Finite 1)"
  by (cases v) (auto simp: number_ops)

lemma clamp_points:
  "points (clamp this) =
     map (\<lambda>p. p\<lparr> y := Math_max [Finite 0, Math_min [Finite 1, y p]],
                slope := Math_max [Finite (- 1), Math_min [Finite 1, slope p]] \<rparr>) (points this)"
  by (simp add: clamp_def map_points_plain)

lemma clamp_unit_idem:
  "Math_max [Finite 0, Math_min [Finite 1, Math_max [Finite 0, Math_min [Finite 1, v]]]]
   = Math_max [Finite 0, Math_min [Finite 1, v]]"
  by (cases v) (simp_all add: clamp_unit)

lemma clamp_slope_idem:
  "Math_max [Finite (- 1), Math_min [Finite 1, Math_max [Finite (- 1), Math_min [Finite 1, v]]]]
   = Math_max [Finite (- 1), Math_min [Finite 1, v]]"
  by (cases v) (simp_all add: clamp_slope)

lemma clamp_unit_range:
  "Math_max [Finite 0, Math_min [Finite 1, v]] = NaN \<or>
   (num_le (Finite 0) (Math_max [Finite 0, Math_min [Finite 1, v]]) \<and>
    num_le (Math_max [Finite 0, Math_min [Finite 1, v]]) (Finite 1))"
  by (cases v) (simp_all add: clamp_unit num_le_def num_less_def realOf_def)

lemma clamp_slope_range:
  "Math_max [Finite (- 1), Math_min [Finite 1, v]] = NaN \<or>
   (num_le (Finite (- 1)) (Math_max [Finite (- 1), Math_min [Finite 1, v]]) \<and>
    num_le (Math_max [Finite (- 1), Math_min [Finite 1, v]]) (Finite 1))"
  by (cases v) (simp_all add: clamp_slope num_le_def num_less_def realOf_def)

lemma clamp_unit_NaN: "(Math_max [Finite 0, Math_min [Finite 1, v]] = NaN) = (v = NaN)"
  by (cases v) (simp_all add: clamp_unit)

lemma clamp_slope_NaN: "(Math_max [Finite (- 1), Math_min [Finite 1, v]] = NaN) = (v = NaN)"
  by (cases v) (simp_all add: clamp_slope)

subsection \<open>Evaluating fromHexString on hexadecimal text\<close>

lemma hexDigitValue_table:
  "hexDigitValue CHR ''0'' = Some 0" "hexDigitValue CHR ''1'' = Some 1"
  "hexDigitValue CHR ''2'' = Some 2" "hexDigitValue CHR ''3'' = Some 3"
  "hexDigitValue CHR ''4'' = Some 4" "hexDigitValue CHR ''5'' = Some 5"
  "hexDigitValue CHR ''6'' = Some 6" "hexDigitValue CHR ''7'' = Some 7"
  "hexDigitValue CHR ''8'' = Some 8" "hexDigitValue CHR ''9'' = Some 9"
  "hexDigitValue CHR ''a'' = Some 10" "hexDigitValue CHR ''b'' = Some 11"
  "hexDigitValue CHR ''c'' = Some 12" "hexDigitValue CHR ''d'' = Some 13"
  "hexDigitValue CHR ''e'' = Some 14" "hexDigitValue CHR ''f'' = Some 15"
  "hexDigitValue CHR ''A'' = Some 10" "hexDigitValue CHR ''B'' = Some 11"
  "hexDigitValue CHR ''C'' = Some 12" "hexDigitValue CHR ''D'' = Some 13"
  "hexDigitValue CHR ''E'' = Some 14" "hexDigitValue CHR ''F'' = Some 15"
  by (simp_all add: hexDigitValue_def)

lemma hexDigit_not_space: "hexDigitValue c \<noteq> None \<Longrightarrow> \<not> isWhiteSpace c"
  by (auto simp: hexDigitValue_def isWhiteSpace_def Let_def split: if_splits)

lemma hexDigit_not_sign:
  "hexDigitValue c \<noteq> None \<Longrightarrow>
   c \<noteq> CHR ''+'' \<and> c \<noteq> CHR ''-'' \<and> c \<noteq> CHR ''x'' \<and> c \<noteq> CHR ''X''"
  by (auto simp: hexDigitValue_def Let_def split: if_splits)

lemma parseInt16_pair:
  assumes "hexDigitValue a \<noteq> None" and "hexDigitValue b \<noteq> None"
  shows "parseInt16 [a, b] = Some (int (16 * the (hexDigitValue a) + the (hexDigitValue b)))"
  using assms hexDigit_not_space [OF assms(1)] hexDigit_not_sign [OF assms(1)]
    hexDigit_not_sign [OF assms(2)]
  by (simp add: parseInt16_def)

lemma parseInt16_single:
  assumes "hexDigitValue a \<noteq> None"
  shows "parseInt16 [a] = Some (int (the (hexDigitValue a)))"
  using assms hexDigit_not_space [OF assms] hexDigit_not_sign [OF assms]
  by (simp add: parseInt16_def)

lemma fromHexString_Nil: "fromHexString [] = Inl TypeError"
  by (simp add: fromHexString_def)

lemma fromHexString_space: "fromHexString (CHR '' '' # rest) = fromHexString rest"
  by (simp add: fromHexString_def isWhiteSpace_def)

lemma fromHexString_pair:
  assumes "hexDigitValue a \<noteq> None" and "hexDigitValue b \<noteq> None"
  shows "fromHexString (a # b # rest) =
           Inr (word_of_nat (16 * the (hexDigitValue a) + the (hexDigitValue b))
                # (case fromHexString rest of Inl e \<Rightarrow> [] | Inr bs \<Rightarrow> bs))"
  using hexDigit_not_space [OF assms(1)] hexDigit_not_space [OF assms(2)]
  by (simp add: fromHexString_def Let_def parseInt16_pair [OF assms] toUint8_def)

lemma fromHexString_single:
  assumes "hexDigitValue a \<noteq> None"
  shows "fromHexString [a] = Inr [word_of_nat (the (hexDigitValue a))]"
  using hexDigit_not_space [OF assms]
  by (simp add: fromHexString_def Let_def parseInt16_single [OF assms] toUint8_def)

lemmas hex_eval =
  fromHexString_Nil fromHexString_space fromHexString_pair fromHexString_single
  hexDigitValue_table stringToHex_def toString16.simps hexDigit_def categoryName_def

text \<open>The only exception of \<open>fromHexString\<close> is the TypeError of \<^verbatim>\<open>null.map\<close>.\<close>

lemma fromHexString_Inl: "fromHexString s = Inl e \<Longrightarrow> e = TypeError"
  by (simp add: fromHexString_def Let_def split: if_splits)

lemma fromHexString_throws_iff:
  "(fromHexString s = Inl TypeError) = (filter (\<lambda>c. \<not> isWhiteSpace c) s = [])"
  by (simp add: fromHexString_def Let_def)

lemma spread_fromHexString_throws_iff:
  "(spread (fromHexString s # rest) = Inl TypeError)
   = (fromHexString s = Inl TypeError \<or> spread rest = Inl TypeError)"
proof (cases "fromHexString s")
  case (Inl e)
  then show ?thesis using fromHexString_Inl [OF Inl] by simp
next
  case (Inr bs)
  then show ?thesis by (cases "spread rest") simp_all
qed

lemma spread_append:
  "spread (as @ bs) = then_e (spread as) (\<lambda>u. then_e (spread bs) (\<lambda>v. Inr (u @ v)))"
proof (induction as rule: spread.induct)
  case 1
  show ?case by (cases "spread bs") simp_all
next
  case (2 e rest)
  show ?case by simp
next
  case (3 v rest)
  then show ?case by (cases "spread rest"; cases "spread bs") simp_all
qed

subsection \<open>The record of one point\<close>

lemma length_float64_be [simp]: "length (float64_be v) = 8"
  by (simp add: float64_be_def)

lemma setFloat64_splice:
  assumes "length a = off" and "length b = 8"
  shows "setFloat64 (a @ b @ c) off v = Inr (a @ float64_be v @ c)"
  using assms by (simp add: setFloat64_def)

lemma pointStructure_template:
  "spread [fromHexString ''00 12 7E 00 00 35 FD 07'', Inr (new_Uint8Array 8),
           fromHexString ''00 00 35 FE 07'', Inr (new_Uint8Array 8),
           fromHexString ''00 00 35 FF 07'', Inr (new_Uint8Array 8),
           fromHexString ''00 00 00 00 00'']
   = Inr ([0x00, 0x12, 0x7E, 0x00, 0x00, 0x35, 0xFD, 0x07] @ replicate 8 0 @
          [0x00, 0x00, 0x35, 0xFE, 0x07] @ replicate 8 0 @
          [0x00, 0x00, 0x35, 0xFF, 0x07] @ replicate 8 0 @
          [0x00, 0x00, 0x00, 0x00, 0x00])"
  by (simp add: hex_eval new_Uint8Array_def)

lemma pointStructure_layout: "pointStructure p = Inr (pointRecord p)"
proof -
  let ?ty = "[0x00, 0x12, 0x7E, 0x00, 0x00, 0x35, 0xFD, 0x07] :: byte list"
  let ?tx = "[0x00, 0x00, 0x35, 0xFE, 0x07] :: byte list"
  let ?ts = "[0x00, 0x00, 0x35, 0xFF, 0x07] :: byte list"
  let ?tr = "[0x00, 0x00, 0x00, 0x00, 0x00] :: byte list"
  let ?z = "replicate 8 0 :: byte list"
  have s1: "setFloat64 (?ty @ ?z @ (?tx @ ?z @ ?ts @ ?z @ ?tr)) 8 (y p)
            = Inr (?ty @ float64_be (y p) @ (?tx @ ?z @ ?ts @ ?z @ ?tr))"
    by (rule setFloat64_splice) simp_all
  have s2: "setFloat64 ((?ty @ float64_be (y p) @ ?tx) @ ?z @ (?ts @ ?z @ ?tr)) 21 (x p)
            = Inr ((?ty @ float64_be (y p) @ ?tx) @ float64_be (x p) @ (?ts @ ?z @ ?tr))"
    by (rule setFloat64_splice) simp_all
  have s3: "setFloat64 ((?ty @ float64_be (y p) @ ?tx @ float64_be (x p) @ ?ts) @ ?z @ ?tr)
              34 (slope p)
            = Inr ((?ty @ float64_be (y p) @ ?tx @ float64_be (x p) @ ?ts)
                   @ float64_be (slope p) @ ?tr)"
    by (rule setFloat64_splice) simp_all
  show ?thesis
    unfolding pointStructure_def pointStructure_template pointRecord_def
    using s1 s2 s3 by (simp only: then_e_simps append_assoc)
qed

lemma mapE_pointStructure: "mapE pointStructure ps = Inr (map pointRecord ps)"
  by (induction ps) (simp_all add: pointStructure_layout)

subsection \<open>Merging the records\<close>

lemma fold_length_sum: "fold (\<lambda>p n. n + length p) pts k = k + sum_list (map length pts)"
  by (induction pts arbitrary: k) simp_all

lemma setEach_concat:
  "length pre = offset \<Longrightarrow> length rest = sum_list (map length ps) \<Longrightarrow>
   setEach (pre @ rest) offset ps = Inr (pre @ concat ps)"
proof (induction ps arbitrary: pre rest offset)
  case Nil
  then show ?case by simp
next
  case (Cons p ps)
  have copied: "set_Uint8Array (pre @ rest) p offset = Inr ((pre @ p) @ drop (length p) rest)"
    using Cons.prems by (simp add: set_Uint8Array_def)
  have "setEach ((pre @ p) @ drop (length p) rest) (offset + length p) ps
        = Inr ((pre @ p) @ concat ps)"
    by (rule Cons.IH) (use Cons.prems in simp_all)
  with copied show ?case by simp
qed

lemma mergePoints_concat: "mergePoints pts = Inr (concat pts)"
  using setEach_concat [of "[]" 0 "replicate (sum_list (map length pts)) 0" pts]
  by (simp add: mergePoints_def new_Uint8Array_def fold_length_sum)

subsection \<open>The result of toBuffer\<close>

lemma pointsList_bytes: "spread (pointsList m) = Inr (pointsDeclaration @ m @ pointsEnd)"
  by (simp add: pointsList_def pointsDeclaration_def pointsEnd_def hex_eval)

lemma toBuffer_result:
  "fst (toBuffer this) =
     then_e (spread (metadataBlock this)) (\<lambda>meta.
     then_e (spread (trailerBlock this)) (\<lambda>trailer.
     Inr (meta @ pointsDeclaration @ concat (map pointRecord (points this)) @ pointsEnd
          @ trailer)))"
  by (cases "spread (metadataBlock this)"; cases "spread (trailerBlock this)")
     (simp_all add: toBuffer_def mapE_pointStructure mergePoints_concat spread_append
        pointsList_bytes)

lemma metadataBlock_empty_tags:
  assumes "tags (metadata this) = []"
  shows "spread (metadataBlock this) = Inl TypeError"
  unfolding metadataBlock_def spacer_def stop_def
  by (simp only: spread_fromHexString_throws_iff) (simp add: assms fromHexString_throws_iff)

lemma default_metadata: "spread (metadataBlock new_BWCurve) = Inr defaultMetadataBytes"
  by (simp add: metadataBlock_def new_BWCurve_def spacer_def stop_def defaultMetadataBytes_def
      hex_eval)

lemma default_trailer: "spread (trailerBlock new_BWCurve) = Inr defaultTrailerBytes"
  by (simp add: trailerBlock_def new_BWCurve_def spacer_def stop_def defaultTrailerBytes_def
      hex_eval)

lemma metadataBlock_points: "metadataBlock (this\<lparr>points := ps\<rparr>) = metadataBlock this"
  by (simp add: metadataBlock_def)

lemma trailerBlock_points: "trailerBlock (this\<lparr>points := ps\<rparr>) = trailerBlock this"
  by (simp add: trailerBlock_def)

lemma toBuffer_default_metadata:
  "fst (toBuffer (new_BWCurve\<lparr>points := ps\<rparr>)) =
     Inr (defaultMetadataBytes @ pointsDeclaration @ concat (map pointRecord ps) @ pointsEnd
          @ defaultTrailerBytes)"
  by (simp add: toBuffer_result metadataBlock_points trailerBlock_points default_metadata
      default_trailer)

subsection \<open>The curves on which toBuffer returns\<close>

text \<open>
  \<open>toBuffer\<close> returns bytes exactly when the name, the creator and the description are
  not empty and the tags are neither the empty list nor the list of one empty tag; on
  every other curve one of the texts handed to \<open>fromHexString\<close> is empty and the call
  throws.
\<close>

lemma hexDigit_no_space: "d < 16 \<Longrightarrow> \<not> isWhiteSpace (hexDigit d)"
proof -
  have "\<forall>k\<in>set [0 ..< 16]. \<not> isWhiteSpace (hexDigit k)"
    by (simp add: upt_rec hexDigit_def isWhiteSpace_def)
  then show "d < 16 \<Longrightarrow> \<not> isWhiteSpace (hexDigit d)" by simp
qed

lemma toString16_no_space: "c \<in> set (toString16 n) \<Longrightarrow> \<not> isWhiteSpace c"
proof (induction n rule: toString16.induct)
  case (1 n)
  show ?case
  proof (cases "n < 16")
    case True
    then show ?thesis using "1.prems" hexDigit_no_space [of n]
      by (simp add: toString16.simps [of n])
  next
    case False
    then show ?thesis
      using "1.prems" "1.IH" hexDigit_no_space [of "n mod 16"]
      by (auto simp: toString16.simps [of n])
  qed
qed

lemma toString16_not_Nil: "toString16 n \<noteq> []"
  by (subst toString16.simps) simp

lemma filter_toString16: "filter (\<lambda>c. \<not> isWhiteSpace c) (toString16 n) = toString16 n"
  by (rule filter_True) (use toString16_no_space in blast)

lemma stringToHex_no_space: "c \<in> set (stringToHex s) \<Longrightarrow> \<not> isWhiteSpace c"
  by (auto simp: stringToHex_def dest: toString16_no_space)

lemma filter_stringToHex: "filter (\<lambda>c. \<not> isWhiteSpace c) (stringToHex s) = stringToHex s"
  by (rule filter_True) (use stringToHex_no_space in blast)

lemma stringToHex_Nil_iff: "(stringToHex s = []) = (s = [])"
  by (cases s) (simp_all add: stringToHex_def toString16_not_Nil)

lemma join_no_space:
  "c \<in> set (join ''20'' ss) \<Longrightarrow> \<forall>s\<in>set ss. \<forall>c\<in>set s. \<not> isWhiteSpace c \<Longrightarrow> \<not> isWhiteSpace c"
  by (induction "''20''" ss rule: join.induct) (auto simp: isWhiteSpace_def)

lemma filter_join_tags:
  "filter (\<lambda>c. \<not> isWhiteSpace c) (join ''20'' (map (\<lambda>t. stringToHex t) ts))
   = join ''20'' (map (\<lambda>t. stringToHex t) ts)"
  by (rule filter_True) (use join_no_space stringToHex_no_space in fastforce)

lemma join_Nil_iff: "(join ''20'' ss = []) = (ss = [] \<or> ss = [[]])"
  by (induction "''20''" ss rule: join.induct) auto

lemma filter_if: "filter P (if c then a else b) = (if c then filter P a else filter P b)"
  by simp

lemma fromHexString_returns_iff:
  "(\<not> isl (fromHexString s)) = (filter (\<lambda>c. \<not> isWhiteSpace c) s \<noteq> [])"
  by (simp add: fromHexString_def Let_def)

lemma spread_returns_iff:
  "(\<not> isl (spread (r # rest))) = (\<not> isl r \<and> \<not> isl (spread rest))"
  by (cases r; cases "spread rest") simp_all

lemma spread_Nil_returns: "\<not> isl (spread [])"
  by simp

lemma metadataBlock_returns_iff:
  "(\<not> isl (spread (metadataBlock this))) =
     (description (metadata this) \<noteq> [] \<and> creator (metadata this) \<noteq> [] \<and>
      tags (metadata this) \<noteq> [] \<and> tags (metadata this) \<noteq> [[]])"
  unfolding metadataBlock_def spacer_def stop_def
  apply (simp only: spread_returns_iff spread_Nil_returns fromHexString_returns_iff
      filter_if filter_toString16 filter_stringToHex filter_join_tags)
  apply (simp add: toString16_not_Nil stringToHex_Nil_iff join_Nil_iff isWhiteSpace_def)
  by (auto simp: categoryName_def stringToHex_Nil_iff split: BWCurveCategories.splits)

lemma trailerBlock_returns_iff:
  "(\<not> isl (spread (trailerBlock this))) =
     (name (metadata this) \<noteq> [] \<and> creator (metadata this) \<noteq> [] \<and>
      description (metadata this) \<noteq> [] \<and>
      tags (metadata this) \<noteq> [] \<and> tags (metadata this) \<noteq> [[]])"
  unfolding trailerBlock_def spacer_def stop_def
  apply (simp only: spread_returns_iff spread_Nil_returns fromHexString_returns_iff
      filter_if filter_toString16 filter_stringToHex filter_join_tags)
  apply (simp add: toString16_not_Nil stringToHex_Nil_iff join_Nil_iff isWhiteSpace_def)
  by (auto simp: categoryName_def stringToHex_Nil_iff split: BWCurveCategories.splits)

lemma toBuffer_returns_iff:
  "(\<not> isl (fst (toBuffer this))) =
     (name (metadata this) \<noteq> [] \<and> creator (metadata this) \<noteq> [] \<and>
      description (metadata this) \<noteq> [] \<and>
      tags (metadata this) \<noteq> [] \<and> tags (metadata this) \<noteq> [[]])"
  using metadataBlock_returns_iff [of this] trailerBlock_returns_iff [of this]
  by (cases "spread (metadataBlock this)"; cases "spread (trailerBlock this)")
     (auto simp: toBuffer_result)

lemma binary64_one: "binary64 (Finite 1) = 0x3FF0000000000000"
  by (simp add: binary64_def roundTiesToEven_def Let_def)

lemma float64_be_one: "float64_be (Finite 1) = [0x3F, 0xF0, 0, 0, 0, 0, 0, 0]"
  by (simp add: float64_be_def binary64_one upt_rec drop_bit_eq_div)

lemma float64_be_zero: "float64_be (Finite 0) = [0, 0, 0, 0, 0, 0, 0, 0]"
  by (simp add: float64_be_def binary64_def upt_rec)

section \<open>The claims\<close>

subsection \<open>C1: decoding what was encoded\<close>

text \<open>
  Claim C1 says that \<open>fromBuffer\<close> applied to the bytes of \<open>toBuffer\<close> gives back the
  document, for every document with at least one point. In the source \<open>fromBuffer\<close> is
  not implemented. The claim as amended: on every byte sequence \<open>fromBuffer\<close> throws
  the error "Not implemented (yet)", so decoding the output of \<open>toBuffer\<close> never
  yields a document, whatever the document was.
\<close>

theorem fromBuffer_not_implemented:
  "fromBuffer buffer = Inl (Error ''Not implemented (yet)'') \<and>
   then_e (fst (toBuffer this)) fromBuffer \<noteq> Inr this"
  by (cases "fst (toBuffer this)") (simp_all add: fromBuffer_def)

text \<open>
  Claim C1 as stated fails on the default curve with the two points (0,0,0) and (1,1,0):
  encoding succeeds, decoding does not return the curve.
\<close>

theorem fromBuffer_roundtrip_counterexample:
  "then_e (fst (toBuffer (new_BWCurve\<lparr>points := [point 0 0 0, point 1 1 0]\<rparr>))) fromBuffer
   \<noteq> Inr (new_BWCurve\<lparr>points := [point 0 0 0, point 1 1 0]\<rparr>)"
  by (simp add: toBuffer_default_metadata fromBuffer_def)

subsection \<open>C2: the points block\<close>

text \<open>
  Claim C2, as amended: whenever \<open>toBuffer\<close> returns bytes, they are the header and
  metadata block, the points declaration, then for each point in point order and with
  nothing in between the record made of an eight-byte tag, the eight big-endian bytes
  of the double y, a five-byte tag, the double x, a five-byte tag, the double slope and
  a five-byte trailer, then the fixed terminator of the points list, then the trailer
  block. The claim says the first tag has seven bytes; it has eight.
\<close>

theorem toBuffer_points_block:
  assumes "fst (toBuffer this) = Inr bytes"
  shows "\<exists>meta trailer.
           spread (metadataBlock this) = Inr meta \<and>
           spread (trailerBlock this) = Inr trailer \<and>
           bytes = meta @ pointsDeclaration @
             concat (map (\<lambda>p. [0x00, 0x12, 0x7E, 0x00, 0x00, 0x35, 0xFD, 0x07] @ float64_be (y p) @
                               [0x00, 0x00, 0x35, 0xFE, 0x07] @ float64_be (x p) @
                               [0x00, 0x00, 0x35, 0xFF, 0x07] @ float64_be (slope p) @
                               [0x00, 0x00, 0x00, 0x00, 0x00]) (points this)) @
             [0x00, 0x00, 0x03, 0x00, 0x00, 0x37, 0x88, 0x01, 0xFF, 0x00, 0x00, 0x36, 0x65, 0x01,
              0xFF, 0x00, 0x00, 0x36, 0x66, 0x01, 0xFF, 0x00] @ trailer"
proof -
  have layout: "pointRecord = (\<lambda>p. [0x00, 0x12, 0x7E, 0x00, 0x00, 0x35, 0xFD, 0x07] @ float64_be (y p) @
                               [0x00, 0x00, 0x35, 0xFE, 0x07] @ float64_be (x p) @
                               [0x00, 0x00, 0x35, 0xFF, 0x07] @ float64_be (slope p) @
                               [0x00, 0x00, 0x00, 0x00, 0x00])"
    by (rule ext) (simp add: pointRecord_def)
  obtain meta where meta: "spread (metadataBlock this) = Inr meta"
    using assms by (cases "spread (metadataBlock this)") (simp_all add: toBuffer_result)
  obtain trailer where trailer: "spread (trailerBlock this) = Inr trailer"
    using assms meta by (cases "spread (trailerBlock this)") (simp_all add: toBuffer_result)
  have "bytes = meta @ pointsDeclaration @ concat (map pointRecord (points this)) @ pointsEnd
                @ trailer"
    using assms meta trailer by (simp add: toBuffer_result)
  then show ?thesis
    using meta trailer unfolding layout pointsEnd_def by blast
qed

text \<open>
  The hypothesis holds for the default curve with the points (0,0,0) and (1,1,0): the
  call returns the bytes written out here, which have the layout of the theorem.
\<close>

theorem toBuffer_points_block_witness:
  "fst (toBuffer (new_BWCurve\<lparr>points := [point 0 0 0, point 1 1 0]\<rparr>)) =
     Inr (defaultMetadataBytes @ pointsDeclaration @
          ([0x00, 0x12, 0x7E, 0x00, 0x00, 0x35, 0xFD, 0x07, 0, 0, 0, 0, 0, 0, 0, 0,
            0x00, 0x00, 0x35, 0xFE, 0x07, 0, 0, 0, 0, 0, 0, 0, 0,
            0x00, 0x00, 0x35, 0xFF, 0x07, 0, 0, 0, 0, 0, 0, 0, 0, 0x00, 0x00, 0x00, 0x00, 0x00] @
           [0x00, 0x12, 0x7E, 0x00, 0x00, 0x35, 0xFD, 0x07, 0x3F, 0xF0, 0, 0, 0, 0, 0, 0,
            0x00, 0x00, 0x35, 0xFE, 0x07, 0x3F, 0xF0, 0, 0, 0, 0, 0, 0,
            0x00, 0x00, 0x35, 0xFF, 0x07, 0, 0, 0, 0, 0, 0, 0, 0, 0x00, 0x00, 0x00, 0x00, 0x00]) @
          pointsEnd @ defaultTrailerBytes) \<and>
   (\<exists>meta trailer.
      spread (metadataBlock (new_BWCurve\<lparr>points := [point 0 0 0, point 1 1 0]\<rparr>)) = Inr meta \<and>
      spread (trailerBlock (new_BWCurve\<lparr>points := [point 0 0 0, point 1 1 0]\<rparr>)) = Inr trailer \<and>
      defaultMetadataBytes @ pointsDeclaration @
          ([0x00, 0x12, 0x7E, 0x00, 0x00, 0x35, 0xFD, 0x07, 0, 0, 0, 0, 0, 0, 0, 0,
            0x00, 0x00, 0x35, 0xFE, 0x07, 0, 0, 0, 0, 0, 0, 0, 0,
            0x00, 0x00, 0x35, 0xFF, 0x07, 0, 0, 0, 0, 0, 0, 0, 0, 0x00, 0x00, 0x00, 0x00, 0x00] @
           [0x00, 0x12, 0x7E, 0x00, 0x00, 0x35, 0xFD, 0x07, 0x3F, 0xF0, 0, 0, 0, 0, 0, 0,
            0x00, 0x00, 0x35, 0xFE, 0x07, 0x3F, 0xF0, 0, 0, 0, 0, 0, 0,
            0x00, 0x00, 0x35, 0xFF, 0x07, 0, 0, 0, 0, 0, 0, 0, 0, 0x00, 0x00, 0x00, 0x00, 0x00]) @
          pointsEnd @ defaultTrailerBytes
      = meta @ pointsDeclaration @
             concat (map (\<lambda>p. [0x00, 0x12, 0x7E, 0x00, 0x00, 0x35, 0xFD, 0x07] @ float64_be (y p) @
                               [0x00, 0x00, 0x35, 0xFE, 0x07] @ float64_be (x p) @
                               [0x00, 0x00, 0x35, 0xFF, 0x07] @ float64_be (slope p) @
                               [0x00, 0x00, 0x00, 0x00, 0x00])
                         (points (new_BWCurve\<lparr>points := [point 0 0 0, point 1 1 0]\<rparr>))) @
             [0x00, 0x00, 0x03, 0x00, 0x00, 0x37, 0x88, 0x01, 0xFF, 0x00, 0x00, 0x36, 0x65, 0x01,
              0xFF, 0x00, 0x00, 0x36, 0x66, 0x01, 0xFF, 0x00] @ trailer)"
proof -
  have run: "fst (toBuffer (new_BWCurve\<lparr>points := [point 0 0 0, point 1 1 0]\<rparr>)) =
     Inr (defaultMetadataBytes @ pointsDeclaration @
          ([0x00, 0x12, 0x7E, 0x00, 0x00, 0x35, 0xFD, 0x07, 0, 0, 0, 0, 0, 0, 0, 0,
            0x00, 0x00, 0x35, 0xFE, 0x07, 0, 0, 0, 0, 0, 0, 0, 0,
            0x00, 0x00, 0x35, 0xFF, 0x07, 0, 0, 0, 0, 0, 0, 0, 0, 0x00, 0x00, 0x00, 0x00, 0x00] @
           [0x00, 0x12, 0x7E, 0x00, 0x00, 0x35, 0xFD, 0x07, 0x3F, 0xF0, 0, 0, 0, 0, 0, 0,
            0x00, 0x00, 0x35, 0xFE, 0x07, 0x3F, 0xF0, 0, 0, 0, 0, 0, 0,
            0x00, 0x00, 0x35, 0xFF, 0x07, 0, 0, 0, 0, 0, 0, 0, 0, 0x00, 0x00, 0x00, 0x00, 0x00]) @
          pointsEnd @ defaultTrailerBytes)"
    by (simp add: toBuffer_default_metadata pointRecord_def point_def float64_be_zero
        float64_be_one)
  show ?thesis
    using run toBuffer_points_block [OF run] by simp
qed

text \<open>
  Claim C2 as stated fails on the default curve with the single point (0,1,0): its
  record has 47 bytes and the double of y starts after eight bytes, so the record does
  not have the layout with a seven-byte tag.
\<close>

theorem toBuffer_record_counterexample:
  "fst (toBuffer (new_BWCurve\<lparr>points := [point 0 1 0]\<rparr>)) =
     Inr (defaultMetadataBytes @ pointsDeclaration @
          [0x00, 0x12, 0x7E, 0x00, 0x00, 0x35, 0xFD, 0x07, 0x3F, 0xF0, 0, 0, 0, 0, 0, 0,
           0x00, 0x00, 0x35, 0xFE, 0x07, 0, 0, 0, 0, 0, 0, 0, 0,
           0x00, 0x00, 0x35, 0xFF, 0x07, 0, 0, 0, 0, 0, 0, 0, 0, 0x00, 0x00, 0x00, 0x00, 0x00] @
          pointsEnd @ defaultTrailerBytes) \<and>
   \<not> hasSpecLayout
        [0x00, 0x12, 0x7E, 0x00, 0x00, 0x35, 0xFD, 0x07, 0x3F, 0xF0, 0, 0, 0, 0, 0, 0,
         0x00, 0x00, 0x35, 0xFE, 0x07, 0, 0, 0, 0, 0, 0, 0, 0,
         0x00, 0x00, 0x35, 0xFF, 0x07, 0, 0, 0, 0, 0, 0, 0, 0, 0x00, 0x00, 0x00, 0x00, 0x00]
        (point 0 1 0)"
  by (simp add: toBuffer_default_metadata pointRecord_def point_def float64_be_zero
      float64_be_one hasSpecLayout_def)

subsection \<open>C3: encoding twice\<close>

text \<open>
  Claim C3: two calls of \<open>toBuffer\<close> in a row, the second on the state the first one
  left, have the same outcome: the same bytes, or the same exception.
\<close>

theorem toBuffer_deterministic:
  "fst (toBuffer (snd (toBuffer this))) = fst (toBuffer this)"
  by (simp add: toBuffer_def)

theorem toBuffer_deterministic_witness:
  "fst (toBuffer (snd (toBuffer (new_BWCurve\<lparr>points := [point 0 0 0, point 1 1 0]\<rparr>))))
   = fst (toBuffer (new_BWCurve\<lparr>points := [point 0 0 0, point 1 1 0]\<rparr>))"
  by (rule toBuffer_deterministic)

subsection \<open>C4: double\<close>

text \<open>
  Claim C4 says that \<open>double\<close> multiplies every x by 0.5 and that the result spans the
  x domain of the original. The source multiplies by 0.5 times the largest x. On the
  curve with the points (0,0,0) and (4,1,0) the factor is 2: the result has the points
  (0,0,0), (8,1,0), (8,0,0), (16,1,0) and its largest x is 16, where the claim gives
  (0,0,0), (2,1,0), (2,0,0), (4,1,0) and 4.
\<close>

theorem double_scales_by_half_of_maxX:
  "points (double (new_BWCurve\<lparr>points := [point 0 0 0, point 4 1 0]\<rparr>))
     = [point 0 0 0, point 8 1 0, point 8 0 0, point 16 1 0] \<and>
   getMaxX (new_BWCurve\<lparr>points := [point 0 0 0, point 4 1 0]\<rparr>) = Finite 4 \<and>
   getMaxX (double (new_BWCurve\<lparr>points := [point 0 0 0, point 4 1 0]\<rparr>)) = Finite 16"
  by (simp add: double_def scaleX_def spliceCurve_def getMaxX_def point_def pushPoints_def
      Let_def number_ops)

subsection \<open>C5: spliceCurve\<close>

text \<open>
  Claim C5, as amended: on an empty receiver \<open>spliceCurve\<close> adopts the points of the
  argument unchanged; and splicing the curve with the points (0,0,0), (1,1,0) with
  another curve with the same points gives (0,0,0), (1,1,0), (1,0,0), (2,1,0): the
  appended points are offset on x by the largest x of the receiver, which is 1. The
  claim lists (2,0,0) and (3,1,0) as the appended points.
\<close>

theorem spliceCurve_examples:
  "(points this = [] \<longrightarrow> points (spliceCurve this curve) = points curve) \<and>
   getMaxX (new_BWCurve\<lparr>points := [point 0 0 0, point 1 1 0]\<rparr>) = Finite 1 \<and>
   points (spliceCurve (new_BWCurve\<lparr>points := [point 0 0 0, point 1 1 0]\<rparr>)
                       (new_BWCurve\<lparr>points := [point 0 0 0, point 1 1 0]\<rparr>))
     = [point 0 0 0, point 1 1 0, point 1 0 0, point 2 1 0]"
  by (simp add: spliceCurve_def getMaxX_def point_def pushPoints_def Let_def number_ops)

theorem spliceCurve_examples_witness:
  "points new_BWCurve = [] \<and>
   points (spliceCurve new_BWCurve (new_BWCurve\<lparr>points := [point 0 0 0, point 1 1 0]\<rparr>))
     = [point 0 0 0, point 1 1 0]"
  using spliceCurve_examples [of new_BWCurve "new_BWCurve\<lparr>points := [point 0 0 0, point 1 1 0]\<rparr>"]
  by (simp add: new_BWCurve_def)

theorem spliceCurve_offset_counterexample:
  "points (spliceCurve (new_BWCurve\<lparr>points := [point 0 0 0, point 1 1 0]\<rparr>)
                       (new_BWCurve\<lparr>points := [point 0 0 0, point 1 1 0]\<rparr>))
     \<noteq> [point 0 0 0, point 1 1 0, point 2 0 0, point 3 1 0]"
  by (simp add: spliceCurve_def getMaxX_def point_def pushPoints_def Let_def number_ops)

subsection \<open>C6: removePoint out of range\<close>

text \<open>
  Claim C6, as amended: \<open>removePoint\<close> with an index greater than or equal to the
  point count changes nothing and raises no error. A negative index is not a no-op: it
  counts from the end, so on a curve with at least one point it removes the point at
  position max (count + index, 0), and raises no error either.
\<close>

theorem removePoint_out_of_range:
  "(int (length (points this)) \<le> index \<longrightarrow> removePoint this index = this) \<and>
   (index < 0 \<longrightarrow> points this \<noteq> [] \<longrightarrow>
      points (removePoint this index) =
        take (nat (max (int (length (points this)) + index) 0)) (points this) @
        drop (nat (max (int (length (points this)) + index) 0) + 1) (points this) \<and>
      length (points (removePoint this index)) = length (points this) - 1)"
  by (auto simp: removePoint_def splice_def Let_def max_def min_def nat_add_distrib)

theorem removePoint_out_of_range_witness:
  "int (length (points (new_BWCurve\<lparr>points := [point 0 0 0, point 1 1 0]\<rparr>))) \<le> 2 \<and>
   removePoint (new_BWCurve\<lparr>points := [point 0 0 0, point 1 1 0]\<rparr>) 2
     = new_BWCurve\<lparr>points := [point 0 0 0, point 1 1 0]\<rparr> \<and>
   (- 1 :: int) < 0 \<and>
   points (new_BWCurve\<lparr>points := [point 0 0 0, point 1 1 0]\<rparr>) \<noteq> [] \<and>
   points (removePoint (new_BWCurve\<lparr>points := [point 0 0 0, point 1 1 0]\<rparr>) (- 1))
     = [point 0 0 0]"
  using removePoint_out_of_range [of "new_BWCurve\<lparr>points := [point 0 0 0, point 1 1 0]\<rparr>" 2]
    removePoint_out_of_range [of "new_BWCurve\<lparr>points := [point 0 0 0, point 1 1 0]\<rparr>" "- 1"]
  by simp

theorem removePoint_negative_counterexample:
  "points (removePoint (new_BWCurve\<lparr>points := [point 0 0 0, point 1 1 0]\<rparr>) (- 1))
   \<noteq> points (new_BWCurve\<lparr>points := [point 0 0 0, point 1 1 0]\<rparr>)"
  by (simp add: removePoint_def splice_def)

subsection \<open>C7: clamp\<close>

text \<open>
  Claim C7, as amended: \<open>clamp\<close> is idempotent; after one application every point has
  a y that is NaN or lies in [0,1] and a slope that is NaN or lies in [-1,1]; a
  coordinate is NaN afterwards exactly when it was NaN before; x is not touched. The
  claim puts every y in [0,1] and every slope in [-1,1], NaN included.
\<close>

theorem clamp_idempotent_and_range:
  "clamp (clamp this) = clamp this \<and>
   list_all (\<lambda>q. (y q = NaN \<or> (num_le (Finite 0) (y q) \<and> num_le (y q) (Finite 1))) \<and>
                 (slope q = NaN \<or>
                    (num_le (Finite (- 1)) (slope q) \<and> num_le (slope q) (Finite 1))))
            (points (clamp this)) \<and>
   map (\<lambda>q. y q = NaN) (points (clamp this)) = map (\<lambda>p. y p = NaN) (points this) \<and>
   map (\<lambda>q. slope q = NaN) (points (clamp this)) = map (\<lambda>p. slope p = NaN) (points this) \<and>
   map x (points (clamp this)) = map x (points this)"
proof (intro conjI)
  show "clamp (clamp this) = clamp this"
    by (simp add: clamp_def map_points_plain clamp_unit_idem clamp_slope_idem o_def)
  show "list_all (\<lambda>q. (y q = NaN \<or> (num_le (Finite 0) (y q) \<and> num_le (y q) (Finite 1))) \<and>
                 (slope q = NaN \<or>
                    (num_le (Finite (- 1)) (slope q) \<and> num_le (slope q) (Finite 1))))
            (points (clamp this))"
    using clamp_unit_range clamp_slope_range by (simp add: clamp_points list_all_iff)
  show "map (\<lambda>q. y q = NaN) (points (clamp this)) = map (\<lambda>p. y p = NaN) (points this)"
    by (simp add: clamp_points o_def clamp_unit_NaN)
  show "map (\<lambda>q. slope q = NaN) (points (clamp this)) = map (\<lambda>p. slope p = NaN) (points this)"
    by (simp add: clamp_points o_def clamp_slope_NaN)
  show "map x (points (clamp this)) = map x (points this)"
    by (simp add: clamp_points o_def)
qed

text \<open>
  On the curve with the points (0, 2, -3) and (1, NaN, 0.5) the clamped points are
  (0, 1, -1) and (1, NaN, 0.5).
\<close>

theorem clamp_idempotent_and_range_witness:
  "points (clamp (new_BWCurve\<lparr>points := [point 0 2 (- 3), \<lparr>x = Finite 1, y = NaN, slope = Finite (1/2)\<rparr>]\<rparr>))
     = [point 0 1 (- 1), \<lparr>x = Finite 1, y = NaN, slope = Finite (1/2)\<rparr>] \<and>
   clamp (clamp (new_BWCurve\<lparr>points := [point 0 2 (- 3), \<lparr>x = Finite 1, y = NaN, slope = Finite (1/2)\<rparr>]\<rparr>))
     = clamp (new_BWCurve\<lparr>points := [point 0 2 (- 3), \<lparr>x = Finite 1, y = NaN, slope = Finite (1/2)\<rparr>]\<rparr>)"
  using clamp_idempotent_and_range
    [of "new_BWCurve\<lparr>points := [point 0 2 (- 3), \<lparr>x = Finite 1, y = NaN, slope = Finite (1/2)\<rparr>]\<rparr>"]
  by (simp add: clamp_points clamp_unit clamp_slope point_def)

text \<open>Claim C7 as stated fails on the curve with the single point (0, NaN, 0).\<close>

theorem clamp_range_counterexample:
  "\<not> list_all (\<lambda>q. num_le (Finite 0) (y q) \<and> num_le (y q) (Finite 1) \<and>
                    num_le (Finite (- 1)) (slope q) \<and> num_le (slope q) (Finite 1))
        (points (clamp (new_BWCurve\<lparr>points := [\<lparr>x = Finite 0, y = NaN, slope = Finite 0\<rparr>]\<rparr>)))"
  by (simp add: clamp_points clamp_unit num_le_def)

subsection \<open>C8: clip\<close>

text \<open>
  Claim C8: in any curve, \<open>clip\<close> with "tanh" sends a point with y = 0 to y = 0,
  \<open>clip\<close> with "sin" sends a point with y = 1 to y = 1, and \<open>clip\<close> with "cubic" sends
  a point with y = 0.5 to y = 2.25 * 0.5 - 1.6875 * 0.125 = 0.9140625.
\<close>

theorem clip_examples:
  assumes "i < length (points this)"
  shows "(y (points this ! i) = Finite 0 \<longrightarrow> y (points (clip this ''tanh'') ! i) = Finite 0) \<and>
         (y (points this ! i) = Finite 1 \<longrightarrow> y (points (clip this ''sin'') ! i) = Finite 1) \<and>
         (y (points this ! i) = Finite (1/2) \<longrightarrow>
            y (points (clip this ''cubic'') ! i) = Finite (2.25 * 0.5 - 1.6875 * 0.125) \<and>
            y (points (clip this ''cubic'') ! i) = Finite 0.9140625)"
  using assms by (simp add: clip_def map_points_plain number_ops power3_eq_cube)

theorem clip_examples_witness:
  "(2::nat) < length (points (new_BWCurve\<lparr>points := [point 0 0 0, point 1 1 0, point 2 (1/2) 0]\<rparr>)) \<and>
   y (points (new_BWCurve\<lparr>points := [point 0 0 0, point 1 1 0, point 2 (1/2) 0]\<rparr>) ! 0) = Finite 0 \<and>
   y (points (clip (new_BWCurve\<lparr>points := [point 0 0 0, point 1 1 0, point 2 (1/2) 0]\<rparr>) ''tanh'') ! 0)
     = Finite 0 \<and>
   y (points (new_BWCurve\<lparr>points := [point 0 0 0, point 1 1 0, point 2 (1/2) 0]\<rparr>) ! 1) = Finite 1 \<and>
   y (points (clip (new_BWCurve\<lparr>points := [point 0 0 0, point 1 1 0, point 2 (1/2) 0]\<rparr>) ''sin'') ! 1)
     = Finite 1 \<and>
   y (points (new_BWCurve\<lparr>points := [point 0 0 0, point 1 1 0, point 2 (1/2) 0]\<rparr>) ! 2) = Finite (1/2) \<and>
   y (points (clip (new_BWCurve\<lparr>points := [point 0 0 0, point 1 1 0, point 2 (1/2) 0]\<rparr>) ''cubic'') ! 2)
     = Finite 0.9140625"
  using clip_examples [of 0 "new_BWCurve\<lparr>points := [point 0 0 0, point 1 1 0, point 2 (1/2) 0]\<rparr>"]
    clip_examples [of 1 "new_BWCurve\<lparr>points := [point 0 0 0, point 1 1 0, point 2 (1/2) 0]\<rparr>"]
    clip_examples [of 2 "new_BWCurve\<lparr>points := [point 0 0 0, point 1 1 0, point 2 (1/2) 0]\<rparr>"]
  by (simp add: point_def)

subsection \<open>C9: no tags\<close>

text \<open>
  Claim C9 says that for a curve without tags \<open>toBuffer\<close> emits the byte 0x00 as the
  length of the tags field. In the source the length is computed as "00", but the next
  operand decodes the empty text of the tags, for which \<open>fromHexString\<close> throws: for
  every curve whose list of tags is empty, \<open>toBuffer\<close> throws a TypeError and emits
  nothing.
\<close>

theorem toBuffer_empty_tags_throws:
  assumes "tags (metadata this) = []"
  shows "fst (toBuffer this) = Inl TypeError"
  by (simp add: toBuffer_result metadataBlock_empty_tags [OF assms])

theorem toBuffer_empty_tags_throws_witness:
  "tags (metadata (setTags new_BWCurve [])) = [] \<and>
   fst (toBuffer (setTags new_BWCurve [])) = Inl TypeError"
proof -
  have empty: "tags (metadata (setTags new_BWCurve [])) = []"
    by (simp add: setTags_def)
  show ?thesis
    using empty toBuffer_empty_tags_throws [OF empty] by simp
qed

subsection \<open>C10: toBuffer leaves the curve alone\<close>

text \<open>
  Claim C10: after a call of \<open>toBuffer\<close> the points and every metadata field (name,
  creator, description, category, tags) are what they were before the call, whether
  the call returned or threw.
\<close>

theorem toBuffer_no_mutation:
  "points (snd (toBuffer this)) = points this \<and>
   name (metadata (snd (toBuffer this))) = name (metadata this) \<and>
   creator (metadata (snd (toBuffer this))) = creator (metadata this) \<and>
   description (metadata (snd (toBuffer this))) = description (metadata this) \<and>
   category (metadata (snd (toBuffer this))) = category (metadata this) \<and>
   tags (metadata (snd (toBuffer this))) = tags (metadata this) \<and>
   snd (toBuffer this) = this"
  by (simp add: toBuffer_def)

theorem toBuffer_no_mutation_witness:
  "snd (toBuffer (new_BWCurve\<lparr>points := [point 0 0 0, point 1 1 0]\<rparr>))
   = new_BWCurve\<lparr>points := [point 0 0 0, point 1 1 0]\<rparr>"
  using toBuffer_no_mutation [of "new_BWCurve\<lparr>points := [point 0 0 0, point 1 1 0]\<rparr>"]
  by simp

end
